theory Spec2Isabelle
  imports Main "HOL-Library.Word"
begin

unbundle bit_operations_syntax

section \<open>Byte buffers\<close>

text \<open>
  A Go \<^verbatim>\<open>[]byte\<close> is a list of 8-bit words, and so is a Go \<^verbatim>\<open>string\<close> (an immutable
  byte sequence).  Lengths and positions are natural numbers: the positions of the source are
  Go \<^verbatim>\<open>int\<close>s (64 bits) that start at a non-negative constant and only grow by amounts
  below \<open>2 ^ 32 + 12\<close>, so they neither go negative nor wrap.  A loop condition
  \<^verbatim>\<open>pos < len(data)-k\<close> is written \<open>pos + k < length data\<close>, which is the same
  comparison on integers and does not depend on truncating subtraction.
\<close>

type_synonym byte = "8 word"
type_synonym bytes = "byte list"

text \<open>The slice expression \<^verbatim>\<open>data[lo:hi]\<close>, used where the source has checked the bounds.\<close>

definition slice :: "bytes \<Rightarrow> nat \<Rightarrow> nat \<Rightarrow> bytes" where
  "slice data lo hi = take (hi - lo) (drop lo data)"

text \<open>A string literal of the source as bytes.\<close>

definition str :: "string \<Rightarrow> bytes" where
  "str s = map (\<lambda>c. word_of_nat (of_char c)) s"

section \<open>JPEG comment segments\<close>

text \<open>\<^verbatim>\<open>int(data[pos])<<8 | int(data[pos+1])\<close>: the 2-byte big-endian length of a segment.\<close>

definition segmentLen :: "bytes \<Rightarrow> nat \<Rightarrow> nat" where
  "segmentLen data pos = push_bit 8 (unat (data ! pos)) OR unat (data ! (pos + 1))"

text \<open>
  \<^verbatim>\<open>insertJPEGComment\<close> (jpeg_handler.go): the segment is the marker \<open>FF FE\<close>, the two bytes
  \<^verbatim>\<open>byte(commentLength>>8), byte(commentLength&0xFF)\<close> and the comment; it is placed after the
  first two bytes of the buffer.  A buffer shorter than 4 bytes is returned as it is.
\<close>

definition commentSegment :: "bytes \<Rightarrow> bytes" where
  "commentSegment comment =
     (let commentLength = length comment + 2
      in [0xFF, 0xFE]
         @ [word_of_nat (drop_bit 8 commentLength), word_of_nat (commentLength AND 0xFF)]
         @ comment)"

definition insertJPEGComment :: "bytes \<Rightarrow> bytes \<Rightarrow> bytes" where
  "insertJPEGComment data comment =
     (if length data < 4 then data
      else let insertPos = 2
           in take insertPos data @ commentSegment comment @ drop insertPos data)"

text \<open>
  \<^verbatim>\<open>removeJPEGComments\<close> (jpeg_metadata.go).  The loop runs while \<^verbatim>\<open>pos < len(data)-4\<close>;
  each \<^verbatim>\<open>break\<close> and the exit of the loop return the bytes gathered so far.
\<close>

function removeJPEGComments_loop :: "bytes \<Rightarrow> nat \<Rightarrow> bytes \<Rightarrow> bytes" where
  "removeJPEGComments_loop data pos result =
     (if pos + 4 < length data then
        (if data ! pos \<noteq> 0xFF then result @ drop pos data
         else
           let marker = data ! (pos + 1);
               pos1 = pos + 2
           in if marker = 0xFE then
                (if pos1 + 2 > length data then result
                 else removeJPEGComments_loop data (pos1 + segmentLen data pos1) result)
              else
                let result1 = result @ [0xFF, marker]
                in if (0xE0 \<le> marker \<and> marker \<le> 0xEF) \<or> marker = 0xFE then
                     (if pos1 + 2 > length data then result1
                      else
                        let endPos = (if pos1 + segmentLen data pos1 > length data
                                      then length data else pos1 + segmentLen data pos1)
                        in removeJPEGComments_loop data endPos (result1 @ slice data pos1 endPos))
                   else result1 @ drop pos1 data)
      else result)"
  by pat_completeness auto
termination
  by (relation "measure (\<lambda>(data, pos, result). length data - pos)") auto

definition removeJPEGComments :: "bytes \<Rightarrow> bytes" where
  "removeJPEGComments data =
     (if length data < 4 then data
      else removeJPEGComments_loop data 2 (take 2 data))"

text \<open>
  \<^verbatim>\<open>extractJPEGComment\<close> (jpeg_metadata.go): the content of the first comment segment, or
  \<^verbatim>\<open>nil\<close> (\<open>None\<close>).  \<^verbatim>\<open>commentLen\<close> is a signed integer in the source and may be negative.
\<close>

function extractJPEGComment_loop :: "bytes \<Rightarrow> nat \<Rightarrow> bytes option" where
  "extractJPEGComment_loop data pos =
     (if pos + 4 < length data then
        (if data ! pos \<noteq> 0xFF then None
         else
           let marker = data ! (pos + 1);
               pos1 = pos + 2
           in if marker = 0xFE then
                (if pos1 + 2 > length data then None
                 else
                   let pos2 = pos1 + 2;
                       commentLen = int (segmentLen data pos1) - 2
                   in if int pos2 + commentLen \<le> int (length data) \<and> commentLen > 0
                      then Some (slice data pos2 (nat (int pos2 + commentLen)))
                      else None)
              else if (0xE0 \<le> marker \<and> marker \<le> 0xEF) \<or> marker = 0xFE then
                (if pos1 + 2 > length data then None
                 else extractJPEGComment_loop data (pos1 + segmentLen data pos1))
              else None)
      else None)"
  by pat_completeness auto
termination
  by (relation "measure (\<lambda>(data, pos). length data - pos)") auto

definition extractJPEGComment :: "bytes \<Rightarrow> bytes option" where
  "extractJPEGComment data =
     (if length data < 4 then None else extractJPEGComment_loop data 2)"

section \<open>PNG chunks\<close>

text \<open>
  \<^verbatim>\<open>binary.BigEndian.Uint32\<close> and \<^verbatim>\<open>binary.BigEndian.PutUint32\<close> of the Go library, as
  \<^verbatim>\<open>encoding/binary\<close> writes them: shifts and bytewise truncation.
\<close>

definition Uint32 :: "bytes \<Rightarrow> 32 word" where
  "Uint32 b = ucast (b ! 3) OR push_bit 8 (ucast (b ! 2))
              OR push_bit 16 (ucast (b ! 1)) OR push_bit 24 (ucast (b ! 0))"

definition PutUint32 :: "32 word \<Rightarrow> bytes" where
  "PutUint32 v = [ucast (drop_bit 24 v), ucast (drop_bit 16 v), ucast (drop_bit 8 v), ucast v]"

text \<open>
  \<^verbatim>\<open>crc32.ChecksumIEEE\<close> of the Go library: the reflected CRC-32 with the IEEE polynomial
  \<open>0xEDB88320\<close>, the register preset to all ones and complemented at the end, one bit at
  a time.
\<close>

definition crc32_bit :: "32 word \<Rightarrow> 32 word" where
  "crc32_bit c = (if bit c 0 then drop_bit 1 c XOR 0xEDB88320 else drop_bit 1 c)"

definition crc32_byte :: "32 word \<Rightarrow> byte \<Rightarrow> 32 word" where
  "crc32_byte c b = (crc32_bit ^^ 8) (c XOR ucast b)"

definition ChecksumIEEE :: "bytes \<Rightarrow> 32 word" where
  "ChecksumIEEE data = NOT (foldl crc32_byte (NOT 0) data)"

definition pngSignature :: bytes where
  "pngSignature = [0x89, 0x50, 0x4E, 0x47, 0x0D, 0x0A, 0x1A, 0x0A]"

text \<open>
  \<^verbatim>\<open>createPNGTextChunk\<close> (jpeg_handler.go).  \<^verbatim>\<open>uint32(len(textData))\<close> keeps the low 32 bits
  of the length.
\<close>

definition createPNGTextChunk :: "bytes \<Rightarrow> bytes \<Rightarrow> bytes" where
  "createPNGTextChunk keyword text =
     (let textData = keyword @ [0] @ text;
          lengthBytes = PutUint32 (word_of_nat (length textData));
          chunkType = str ''tEXt'';
          crcData = chunkType @ textData;
          crc = ChecksumIEEE crcData;
          crcBytes = PutUint32 crc
      in lengthBytes @ chunkType @ textData @ crcBytes)"

text \<open>
  \<^verbatim>\<open>findPNGIENDChunk\<close> (jpeg_metadata.go); \<open>None\<close> is the source's \<open>-1\<close>.  The positions
  \<open>pos1\<close> and \<open>pos2\<close> are the source's \<^verbatim>\<open>pos\<close> after each \<^verbatim>\<open>pos += 4\<close>.
\<close>

function findPNGIENDChunk_loop :: "bytes \<Rightarrow> nat \<Rightarrow> nat option" where
  "findPNGIENDChunk_loop data pos =
     (if pos + 8 < length data then
        (if pos + 4 > length data then None
         else
           let chunkLen = Uint32 (slice data pos (pos + 4));
               pos1 = pos + 4
           in if pos1 + 4 > length data then None
              else
                let chunkType = slice data pos1 (pos1 + 4);
                    pos2 = pos1 + 4
                in if chunkType = str ''IEND'' then Some (pos2 - 8)
                   else findPNGIENDChunk_loop data (pos2 + (unat chunkLen + 4)))
      else None)"
  by pat_completeness auto
termination
  by (relation "measure (\<lambda>(data, pos). length data - pos)") auto

definition findPNGIENDChunk :: "bytes \<Rightarrow> nat option" where
  "findPNGIENDChunk data = findPNGIENDChunk_loop data 8"

text \<open>
  \<^verbatim>\<open>insertPNGTextChunk\<close> (jpeg_metadata.go) builds the chunk in its own body, with the
  statements of \<^verbatim>\<open>createPNGTextChunk\<close>, and splices it at \<^verbatim>\<open>iendPos\<close>.
\<close>

definition insertPNGTextChunk :: "bytes \<Rightarrow> bytes \<Rightarrow> bytes \<Rightarrow> bytes" where
  "insertPNGTextChunk data keyword text =
     (let iendPos = (case findPNGIENDChunk data of None \<Rightarrow> length data | Some p \<Rightarrow> p);
          textData = keyword @ [0] @ text;
          lengthBytes = PutUint32 (word_of_nat (length textData));
          chunkType = str ''tEXt'';
          crcData = chunkType @ textData;
          crc = ChecksumIEEE crcData;
          crcBytes = PutUint32 crc;
          chunk = lengthBytes @ chunkType @ textData @ crcBytes
      in take iendPos data @ chunk @ drop iendPos data)"

text \<open>\<^verbatim>\<open>insertPNGTextChunks\<close> (jpeg_handler.go): all chunks, in order, at \<^verbatim>\<open>iendPos\<close>.\<close>

definition insertPNGTextChunks :: "bytes \<Rightarrow> bytes list \<Rightarrow> bytes" where
  "insertPNGTextChunks data chunks =
     (let iendPos = (case findPNGIENDChunk data of None \<Rightarrow> length data | Some p \<Rightarrow> p)
      in take iendPos data @ concat chunks @ drop iendPos data)"

text \<open>
  \<^verbatim>\<open>removeExistingTextChunks\<close> (jpeg_handler.go).  The first statement slices
  \<^verbatim>\<open>data[:8]\<close>, which panics on a buffer of fewer than 8 bytes (a slice is taken to have no
  spare capacity); \<open>None\<close> is that panic.
\<close>

function removeExistingTextChunks_loop :: "bytes \<Rightarrow> nat \<Rightarrow> bytes \<Rightarrow> bytes" where
  "removeExistingTextChunks_loop data pos result =
     (if pos + 8 < length data then
        (if pos + 4 > length data then result
         else
           let chunkLen = Uint32 (slice data pos (pos + 4))
           in if pos + 8 > length data then result
              else
                let chunkType = slice data (pos + 4) (pos + 8);
                    totalChunkSize = unat chunkLen + 12;
                    chunkEnd = pos + totalChunkSize
                in if chunkEnd > length data then result @ drop pos data
                   else if chunkType = str ''tEXt'' \<or> chunkType = str ''zTXt''
                           \<or> chunkType = str ''iTXt''
                   then removeExistingTextChunks_loop data chunkEnd result
                   else removeExistingTextChunks_loop data chunkEnd
                          (result @ slice data pos chunkEnd))
      else result)"
  by pat_completeness auto
termination
  by (relation "measure (\<lambda>(data, pos, result). length data - pos)") auto

definition removeExistingTextChunks :: "bytes \<Rightarrow> bytes option" where
  "removeExistingTextChunks data =
     (if length data < 8 then None
      else Some (removeExistingTextChunks_loop data 8 (take 8 data)))"

section \<open>Pixel perturbation\<close>

datatype PixelCoord = PixelCoord (X: int) (Y: int)

text \<open>
  \<^verbatim>\<open>getEdgePixels\<close>: the first loop runs \<open>x\<close> over \<open>0, \<dots>, width - 1\<close> and appends the
  top and the bottom pixel of the column, the second runs \<open>y\<close> over \<open>1, \<dots>, height - 2\<close>
  and appends the left and the right pixel of the row.
\<close>

definition getEdgePixels :: "int \<Rightarrow> int \<Rightarrow> PixelCoord list" where
  "getEdgePixels width height =
     concat (map (\<lambda>x. [PixelCoord x 0, PixelCoord x (height - 1)]) [0..width - 1])
     @ concat (map (\<lambda>y. [PixelCoord 0 y, PixelCoord (width - 1) y]) [1..height - 2])"

definition clampUint8 :: "int \<Rightarrow> byte" where
  "clampUint8 v = (if v < 0 then 0 else if v > 255 then 255 else word_of_int v)"

text \<open>
  \<^verbatim>\<open>generateRandomBytes\<close>: a zeroed buffer filled by \<^verbatim>\<open>rand.Read\<close>, whose error the source
  ignores.  The entropy source is the list of bytes it delivers; bytes it does not deliver stay 0.
\<close>

definition generateRandomBytes :: "bytes \<Rightarrow> nat \<Rightarrow> bytes" where
  "generateRandomBytes entropy n = take n (entropy @ replicate n 0)"

text \<open>
  The images of the Go library.  An \<^verbatim>\<open>image.Image\<close> gives its bounds and, for each
  point, its colour; the colour is kept as the \<^verbatim>\<open>color.RGBA\<close> value to which
  \<^verbatim>\<open>(*image.RGBA).Set\<close> converts it.  An \<^verbatim>\<open>image.RGBA\<close> holds its pixels in \<^verbatim>\<open>Pix\<close>, four
  bytes each, rows \<^verbatim>\<open>Stride\<close> bytes apart; \<^verbatim>\<open>RGBAAt\<close> and \<^verbatim>\<open>SetRGBA\<close> ignore a point outside
  \<^verbatim>\<open>Rect\<close>.
\<close>

datatype RGBA = RGBA (R: byte) (G: byte) (B: byte) (A: byte)

record Rectangle =
  MinX :: int
  MinY :: int
  MaxX :: int
  MaxY :: int

definition Dx :: "Rectangle \<Rightarrow> int" where
  "Dx r = MaxX r - MinX r"

definition Dy :: "Rectangle \<Rightarrow> int" where
  "Dy r = MaxY r - MinY r"

record Image =
  Bounds :: Rectangle
  At :: "int \<Rightarrow> int \<Rightarrow> RGBA"

record RGBAImage =
  Pix :: bytes
  Stride :: int
  Rect :: Rectangle

definition NewRGBA :: "Rectangle \<Rightarrow> RGBAImage" where
  "NewRGBA r = \<lparr>Pix = replicate (nat (4 * Dx r * Dy r)) 0, Stride = 4 * Dx r, Rect = r\<rparr>"

definition In :: "int \<Rightarrow> int \<Rightarrow> Rectangle \<Rightarrow> bool" where
  "In x y r \<longleftrightarrow> MinX r \<le> x \<and> x < MaxX r \<and> MinY r \<le> y \<and> y < MaxY r"

definition PixOffset :: "RGBAImage \<Rightarrow> int \<Rightarrow> int \<Rightarrow> nat" where
  "PixOffset p x y = nat ((y - MinY (Rect p)) * Stride p + (x - MinX (Rect p)) * 4)"

definition RGBAAt :: "RGBAImage \<Rightarrow> int \<Rightarrow> int \<Rightarrow> RGBA" where
  "RGBAAt p x y =
     (if \<not> In x y (Rect p) then RGBA 0 0 0 0
      else let i = PixOffset p x y
           in RGBA (Pix p ! i) (Pix p ! (i + 1)) (Pix p ! (i + 2)) (Pix p ! (i + 3)))"

definition SetRGBA :: "RGBAImage \<Rightarrow> int \<Rightarrow> int \<Rightarrow> RGBA \<Rightarrow> RGBAImage" where
  "SetRGBA p x y c =
     (if \<not> In x y (Rect p) then p
      else let i = PixOffset p x y
           in p\<lparr>Pix := (Pix p)[i := R c, i + 1 := G c, i + 2 := B c, i + 3 := A c]\<rparr>)"

text \<open>
  The editable copy: \<^verbatim>\<open>image.NewRGBA(bounds)\<close> and the two nested loops that
  \<^verbatim>\<open>Set\<close> every point of the bounds.
\<close>

definition copyToRGBA :: "Image \<Rightarrow> RGBAImage" where
  "copyToRGBA img =
     (let bounds = Bounds img
      in fold (\<lambda>y newImg. fold (\<lambda>x newImg. SetRGBA newImg x y (At img x y))
                               [MinX bounds..MaxX bounds - 1] newImg)
              [MinY bounds..MaxY bounds - 1] (NewRGBA bounds))"

text \<open>
  The statements shared by \<^verbatim>\<open>modifyJPEGPixel\<close> and \<^verbatim>\<open>modifyPNGPixel\<close>:
  \<^verbatim>\<open>pixelIndex := int(randomBytes[0]) % len(edgePixels)\<close>,
  \<^verbatim>\<open>adjustment := int8(randomBytes[1]%5) - 2\<close> (an 8-bit signed value, read by \<open>sint\<close>), the
  three clamped channels and the write of the new colour with the old alpha.
\<close>

definition pixelIndex :: "PixelCoord list \<Rightarrow> bytes \<Rightarrow> nat" where
  "pixelIndex edgePixels randomBytes = unat (randomBytes ! 0) mod length edgePixels"

definition selectedPixel :: "PixelCoord list \<Rightarrow> bytes \<Rightarrow> PixelCoord" where
  "selectedPixel edgePixels randomBytes = edgePixels ! pixelIndex edgePixels randomBytes"

definition adjustment :: "bytes \<Rightarrow> byte" where
  "adjustment randomBytes = (randomBytes ! 1) mod 5 - 2"

definition newColor :: "RGBA \<Rightarrow> bytes \<Rightarrow> RGBA" where
  "newColor origColor randomBytes =
     (let newR = clampUint8 (uint (R origColor) + sint (adjustment randomBytes));
          newG = clampUint8 (uint (G origColor) + sint (adjustment randomBytes));
          newB = clampUint8 (uint (B origColor) + sint (adjustment randomBytes))
      in RGBA newR newG newB (A origColor))"

definition adjustEdgePixel :: "RGBAImage \<Rightarrow> PixelCoord list \<Rightarrow> bytes \<Rightarrow> RGBAImage" where
  "adjustEdgePixel newImg edgePixels randomBytes =
     (let sel = selectedPixel edgePixels randomBytes;
          origColor = RGBAAt newImg (X sel) (Y sel)
      in SetRGBA newImg (X sel) (Y sel) (newColor origColor randomBytes))"

text \<open>
  The errors of the source are messages built by \<^verbatim>\<open>fmt.Errorf\<close>; each constructor stands
  for one message, and a wrapping message carries the error it wraps.  \<open>SliceOutOfRange\<close> is
  the run-time panic of a slice expression.
\<close>

datatype error =
    FileNotExist
  | ReadFailed
  | UnsupportedFormat bytes
  | ModifySHA1Failed error
  | PixelAdjustFailed error
  | ModifyMetadataFailed error
  | SHA1Unchanged
  | WriteFailed
  | NotValidPNG
  | DecodeJPEGFailed
  | DecodePNGFailed
  | EncodeJPEGFailed
  | EncodePNGFailed
  | NoEdgePixels
  | MarshalFailed
  | SliceOutOfRange

text \<open>
  \<^verbatim>\<open>modifyJPEGPixel\<close> and \<^verbatim>\<open>modifyPNGPixel\<close>.  The decoder and the encoder of the Go
  library (\<^verbatim>\<open>jpeg.Decode\<close>, \<^verbatim>\<open>jpeg.Encode\<close> at quality 95, \<^verbatim>\<open>png.Decode\<close>, \<^verbatim>\<open>png.Encode\<close>) are
  parameters; \<open>None\<close> is their error.
\<close>

definition modifyJPEGPixel ::
  "(bytes \<Rightarrow> Image option) \<Rightarrow> (RGBAImage \<Rightarrow> bytes option) \<Rightarrow> bytes \<Rightarrow> bytes \<Rightarrow> error + bytes" where
  "modifyJPEGPixel jpegDecode jpegEncode entropy data =
     (case jpegDecode data of
        None \<Rightarrow> Inl DecodeJPEGFailed
      | Some img \<Rightarrow>
          let bounds = Bounds img;
              width = Dx bounds;
              height = Dy bounds;
              newImg = copyToRGBA img;
              edgePixels = getEdgePixels width height
          in if length edgePixels = 0 then Inl NoEdgePixels
             else
               let randomBytes = generateRandomBytes entropy 4;
                   newImg1 = adjustEdgePixel newImg edgePixels randomBytes
               in (case jpegEncode newImg1 of
                     None \<Rightarrow> Inl EncodeJPEGFailed
                   | Some buf \<Rightarrow> Inr buf))"

definition modifyPNGPixel ::
  "(bytes \<Rightarrow> Image option) \<Rightarrow> (RGBAImage \<Rightarrow> bytes option) \<Rightarrow> bytes \<Rightarrow> bytes \<Rightarrow> error + bytes" where
  "modifyPNGPixel pngDecode pngEncode entropy data =
     (case pngDecode data of
        None \<Rightarrow> Inl DecodePNGFailed
      | Some img \<Rightarrow>
          let bounds = Bounds img;
              width = Dx bounds;
              height = Dy bounds;
              newImg = copyToRGBA img;
              edgePixels = getEdgePixels width height
          in if length edgePixels = 0 then Inl NoEdgePixels
             else
               let randomBytes = generateRandomBytes entropy 4;
                   newImg1 = adjustEdgePixel newImg edgePixels randomBytes
               in (case pngEncode newImg1 of
                     None \<Rightarrow> Inl EncodePNGFailed
                   | Some buf \<Rightarrow> Inr buf))"

section \<open>Auxiliary-chunk transforms of the package \<^verbatim>\<open>imagesha1\<close>\<close>

text \<open>
  \<^verbatim>\<open>modifyJPEGSHA1\<close> (jpeg_handler.go) decodes, re-encodes the decoded image and inserts a
  comment of 16 random bytes; \<^verbatim>\<open>modifyPNGSHA1\<close> (jpeg_metadata.go) checks the signature and
  inserts a text chunk of 32 random bytes.
\<close>

definition modifyJPEGSHA1 ::
  "(bytes \<Rightarrow> Image option) \<Rightarrow> (Image \<Rightarrow> bytes option) \<Rightarrow> bytes \<Rightarrow> bytes \<Rightarrow> error + bytes" where
  "modifyJPEGSHA1 jpegDecode jpegEncodeImage entropy data =
     (case jpegDecode data of
        None \<Rightarrow> Inl DecodeJPEGFailed
      | Some img \<Rightarrow>
          let randomComment = generateRandomBytes entropy 16
          in (case jpegEncodeImage img of
                None \<Rightarrow> Inl EncodeJPEGFailed
              | Some buf \<Rightarrow> Inr (insertJPEGComment buf randomComment)))"

definition modifyPNGSHA1 :: "bytes \<Rightarrow> bytes \<Rightarrow> error + bytes" where
  "modifyPNGSHA1 entropy data =
     (if length data < 8 \<or> take 8 data \<noteq> pngSignature then Inl NotValidPNG
      else
        let randomText = generateRandomBytes entropy 32
        in Inr (insertPNGTextChunk data (str ''Random'') randomText))"

section \<open>Metadata\<close>

text \<open>
  \<^verbatim>\<open>ImageMetadata\<close> (metadata.go).  A string field is unset when it is empty, the time when
  the pointer is \<^verbatim>\<open>nil\<close>, a dimension when it is 0.  A Go \<^verbatim>\<open>int\<close> is a 64-bit signed word.
  The type of a \<^verbatim>\<open>time.Time\<close> is a parameter, as are \<^verbatim>\<open>Time.Format\<close> and \<^verbatim>\<open>time.Parse\<close>.
\<close>

record 't ImageMetadata =
  Artist :: bytes
  Copyright :: bytes
  Description :: bytes
  DateTime :: "'t option"
  Location :: bytes
  CameraMake :: bytes
  CameraModel :: bytes
  Software :: bytes
  ImageWidth :: "64 word"
  ImageHeight :: "64 word"

definition emptyMetadata :: "'t ImageMetadata" where
  "emptyMetadata =
     \<lparr>Artist = [], Copyright = [], Description = [], DateTime = None, Location = [],
      CameraMake = [], CameraModel = [], Software = [], ImageWidth = 0, ImageHeight = 0\<rparr>"

text \<open>
  \<^verbatim>\<open>strconv.Itoa\<close> and \<^verbatim>\<open>strconv.Atoi\<close> of the Go library: decimal digits with a leading
  \<open>-\<close> for a negative number; \<^verbatim>\<open>Atoi\<close> accepts one leading sign and fails on an empty
  digit string, on any other byte and on a value outside the 64-bit range.
\<close>

fun digits :: "nat \<Rightarrow> bytes" where
  "digits n = (if n < 10 then [0x30 + word_of_nat n]
               else digits (n div 10) @ [0x30 + word_of_nat (n mod 10)])"

declare digits.simps [simp del]

definition Itoa :: "64 word \<Rightarrow> bytes" where
  "Itoa i = (if sint i < 0 then 0x2D # digits (nat (- sint i)) else digits (nat (sint i)))"

fun parseDigits :: "nat \<Rightarrow> bytes \<Rightarrow> nat option" where
  "parseDigits n [] = Some n"
| "parseDigits n (ch # s) =
     (let d = ch - 0x30 in if d > 9 then None else parseDigits (n * 10 + unat d) s)"

definition Atoi :: "bytes \<Rightarrow> 64 word option" where
  "Atoi s =
     (let neg = (s \<noteq> [] \<and> hd s = 0x2D);
          ds = (if s \<noteq> [] \<and> (hd s = 0x2D \<or> hd s = 0x2B) then tl s else s)
      in if ds = [] then None
         else (case parseDigits 0 ds of
                 None \<Rightarrow> None
               | Some n \<Rightarrow>
                   let v = (if neg then - int n else int n)
                   in if v < - (2 ^ 63) \<or> 2 ^ 63 \<le> v then None else Some (word_of_int v)))"

text \<open>
  \<^verbatim>\<open>strings.ToLower\<close> on the letters \<open>A\<close> to \<open>Z\<close>; the library also maps letters outside
  ASCII, which the keywords written by \<^verbatim>\<open>createPNGTextChunks\<close> do not contain.
  \<open>SplitN_2 s sep\<close> is \<^verbatim>\<open>bytes.SplitN(s, []byte{sep}, 2)\<close>.
\<close>

definition ToLower :: "bytes \<Rightarrow> bytes" where
  "ToLower s = map (\<lambda>c. if 0x41 \<le> c \<and> c \<le> 0x5A then c + 0x20 else c) s"

definition SplitN_2 :: "bytes \<Rightarrow> byte \<Rightarrow> bytes list" where
  "SplitN_2 s sep =
     (if sep \<in> set s
      then [takeWhile (\<lambda>b. b \<noteq> sep) s, tl (dropWhile (\<lambda>b. b \<noteq> sep) s)]
      else [s])"

text \<open>\<^verbatim>\<open>createPNGTextChunks\<close> (jpeg_handler.go): one chunk for each set field, in this order.\<close>

definition createPNGTextChunks :: "('t \<Rightarrow> bytes \<Rightarrow> bytes) \<Rightarrow> 't ImageMetadata \<Rightarrow> bytes list" where
  "createPNGTextChunks Format metadata =
     (if Artist metadata \<noteq> [] then [createPNGTextChunk (str ''Author'') (Artist metadata)] else [])
     @ (if Copyright metadata \<noteq> []
        then [createPNGTextChunk (str ''Copyright'') (Copyright metadata)] else [])
     @ (if Description metadata \<noteq> []
        then [createPNGTextChunk (str ''Description'') (Description metadata)] else [])
     @ (case DateTime metadata of
          None \<Rightarrow> []
        | Some t \<Rightarrow> [createPNGTextChunk (str ''Creation Time'')
                        (Format t (str ''2006-01-02T15:04:05Z''))])
     @ (if Location metadata \<noteq> []
        then [createPNGTextChunk (str ''Location'') (Location metadata)] else [])
     @ (if CameraMake metadata \<noteq> []
        then [createPNGTextChunk (str ''Camera Make'') (CameraMake metadata)] else [])
     @ (if CameraModel metadata \<noteq> []
        then [createPNGTextChunk (str ''Camera Model'') (CameraModel metadata)] else [])
     @ (if Software metadata \<noteq> []
        then [createPNGTextChunk (str ''Software'') (Software metadata)] else [])
     @ (if 0 <s ImageWidth metadata
        then [createPNGTextChunk (str ''Image Width'') (Itoa (ImageWidth metadata))] else [])
     @ (if 0 <s ImageHeight metadata
        then [createPNGTextChunk (str ''Image Height'') (Itoa (ImageHeight metadata))] else [])"

text \<open>\<^verbatim>\<open>parsePNGTextChunk\<close> (jpeg_handler.go); the record returned is the record mutated.\<close>

definition parsePNGTextChunk ::
  "(bytes \<Rightarrow> bytes \<Rightarrow> 't option) \<Rightarrow> bytes \<Rightarrow> 't ImageMetadata \<Rightarrow> 't ImageMetadata" where
  "parsePNGTextChunk Parse data metadata =
     (let parts = SplitN_2 data 0
      in if length parts \<noteq> 2 then metadata
         else
           let keyword = parts ! 0;
               text = parts ! 1;
               k = ToLower keyword
           in if k = str ''author'' \<or> k = str ''artist'' then metadata\<lparr>Artist := text\<rparr>
              else if k = str ''copyright'' then metadata\<lparr>Copyright := text\<rparr>
              else if k = str ''description'' then metadata\<lparr>Description := text\<rparr>
              else if k = str ''creation time'' \<or> k = str ''datetime'' then
                (case Parse (str ''2006-01-02T15:04:05Z'') text of
                   Some t \<Rightarrow> metadata\<lparr>DateTime := Some t\<rparr>
                 | None \<Rightarrow>
                     (case Parse (str ''2006:01:02 15:04:05'') text of
                        Some t \<Rightarrow> metadata\<lparr>DateTime := Some t\<rparr>
                      | None \<Rightarrow> metadata))
              else if k = str ''location'' then metadata\<lparr>Location := text\<rparr>
              else if k = str ''camera make'' \<or> k = str ''make'' then metadata\<lparr>CameraMake := text\<rparr>
              else if k = str ''camera model'' \<or> k = str ''model''
              then metadata\<lparr>CameraModel := text\<rparr>
              else if k = str ''software'' then metadata\<lparr>Software := text\<rparr>
              else if k = str ''image width'' \<or> k = str ''width'' then
                (case Atoi text of Some w \<Rightarrow> metadata\<lparr>ImageWidth := w\<rparr> | None \<Rightarrow> metadata)
              else if k = str ''image height'' \<or> k = str ''height'' then
                (case Atoi text of Some h \<Rightarrow> metadata\<lparr>ImageHeight := h\<rparr> | None \<Rightarrow> metadata)
              else metadata)"

text \<open>
  The chunk walk of \<^verbatim>\<open>getPNGMetadata\<close> (jpeg_handler.go), from the position after the
  signature and an empty record.
\<close>

function getPNGMetadata_loop ::
  "(bytes \<Rightarrow> bytes \<Rightarrow> 't option) \<Rightarrow> bytes \<Rightarrow> nat \<Rightarrow> 't ImageMetadata \<Rightarrow> 't ImageMetadata" where
  "getPNGMetadata_loop Parse data pos metadata =
     (if pos + 8 < length data then
        (if pos + 4 > length data then metadata
         else
           let chunkLen = Uint32 (slice data pos (pos + 4));
               pos1 = pos + 4
           in if pos1 + 4 > length data then metadata
              else
                let chunkType = slice data pos1 (pos1 + 4);
                    pos2 = pos1 + 4;
                    metadata1 =
                      (if chunkType = str ''tEXt'' \<and> pos2 + unat chunkLen \<le> length data
                       then parsePNGTextChunk Parse (slice data pos2 (pos2 + unat chunkLen)) metadata
                       else metadata);
                    pos3 = pos2 + (unat chunkLen + 4)
                in if chunkType = str ''IEND'' then metadata1
                   else getPNGMetadata_loop Parse data pos3 metadata1)
      else metadata)"
  by pat_completeness auto
termination
  by (relation "measure (\<lambda>(Parse, data, pos, metadata). length data - pos)") auto

definition modifyPNGMetadata ::
  "('t \<Rightarrow> bytes \<Rightarrow> bytes) \<Rightarrow> bytes \<Rightarrow> 't ImageMetadata \<Rightarrow> error + bytes" where
  "modifyPNGMetadata Format data metadata =
     (if length data < 8 \<or> take 8 data \<noteq> pngSignature then Inl NotValidPNG
      else (case removeExistingTextChunks data of
              None \<Rightarrow> Inl SliceOutOfRange
            | Some cleanData \<Rightarrow>
                let textChunks = createPNGTextChunks Format metadata
                in Inr (insertPNGTextChunks cleanData textChunks)))"

text \<open>
  \<^verbatim>\<open>modifyJPEGMetadata\<close> (jpeg_metadata.go); \<^verbatim>\<open>json.Marshal\<close> and \<^verbatim>\<open>json.Unmarshal\<close> into a
  zero record are parameters, \<open>None\<close> their error.
\<close>

definition modifyJPEGMetadata ::
  "('t ImageMetadata \<Rightarrow> bytes option) \<Rightarrow> bytes \<Rightarrow> 't ImageMetadata \<Rightarrow> error + bytes" where
  "modifyJPEGMetadata Marshal data metadata =
     (let cleanData = removeJPEGComments data
      in (case Marshal metadata of
            None \<Rightarrow> Inl MarshalFailed
          | Some metadataJSON \<Rightarrow> Inr (insertJPEGComment cleanData metadataJSON)))"

section \<open>Files and the entry points\<close>

text \<open>
  The file boundary: \<^verbatim>\<open>os.Stat\<close>, \<^verbatim>\<open>os.ReadFile\<close> and \<^verbatim>\<open>os.WriteFile\<close>.  A path names at
  most one file, which may refuse to be read or written; \<open>written\<close> records every buffer
  handed to \<^verbatim>\<open>os.WriteFile\<close>, in order.
\<close>

record osfile =
  content :: bytes
  readable :: bool
  writable :: bool

record filesystem =
  files :: "bytes \<Rightarrow> osfile option"
  written :: "(bytes \<times> bytes) list"

definition IsNotExist :: "filesystem \<Rightarrow> bytes \<Rightarrow> bool" where
  "IsNotExist fs path \<longleftrightarrow> files fs path = None"

definition ReadFile :: "filesystem \<Rightarrow> bytes \<Rightarrow> bytes option" where
  "ReadFile fs path =
     (case files fs path of
        None \<Rightarrow> None
      | Some f \<Rightarrow> if readable f then Some (content f) else None)"

definition WriteFile :: "filesystem \<Rightarrow> bytes \<Rightarrow> bytes \<Rightarrow> bool \<times> filesystem" where
  "WriteFile fs path data =
     (let fs1 = fs\<lparr>written := written fs @ [(path, data)]\<rparr>
      in (case files fs path of
            None \<Rightarrow>
              (True, fs1\<lparr>files := (files fs)(path \<mapsto>
                               \<lparr>content = data, readable = True, writable = True\<rparr>)\<rparr>)
          | Some f \<Rightarrow>
              if writable f then (True, fs1\<lparr>files := (files fs)(path \<mapsto> f\<lparr>content := data\<rparr>)\<rparr>)
              else (False, fs1)))"

text \<open>A file system that holds one file, readable and writable, and has seen no write.\<close>

definition oneFile :: "bytes \<Rightarrow> bytes \<Rightarrow> filesystem" where
  "oneFile path data =
     \<lparr>files = [path \<mapsto> \<lparr>content = data, readable = True, writable = True\<rparr>], written = []\<rparr>"

text \<open>
  \<^verbatim>\<open>filepath.Ext\<close>: the suffix of the last path element from its last dot, empty without a
  dot (\<open>0x2F\<close> is the separator, \<open>0x2E\<close> the dot).
\<close>

definition Ext :: "bytes \<Rightarrow> bytes" where
  "Ext path =
     (let elem = takeWhile (\<lambda>c. c \<noteq> 0x2F) (rev path)
      in if 0x2E \<in> set elem then 0x2E # rev (takeWhile (\<lambda>c. c \<noteq> 0x2E) elem) else [])"

text \<open>
  The four entry points \<^verbatim>\<open>ModifyImageSHA1\<close> (both packages), \<^verbatim>\<open>ModifyImageSHA1ByPixel\<close> and
  \<^verbatim>\<open>ModifyImageMetadata\<close> have the same statements around their \<^verbatim>\<open>switch ext\<close>: the
  existence check, the read, the digest of the original, the switch, the wrapping of the
  transform's error, the comparison of the two digests and the write.  \<open>modifyFile\<close> is that
  frame; \<open>transform\<close> is the switch together with the wrapping, so that an unsupported
  extension stays unwrapped.  \<open>sha1hex\<close> is \<^verbatim>\<open>fmt.Sprintf("%x", sha1.Sum(data))\<close> of the Go
  library, a parameter.
\<close>

definition modifyFile ::
  "(bytes \<Rightarrow> 'h) \<Rightarrow> (bytes \<Rightarrow> bytes \<Rightarrow> error + bytes) \<Rightarrow> filesystem \<Rightarrow> bytes
     \<Rightarrow> (error + 'h) \<times> filesystem" where
  "modifyFile sha1hex transform fs imagePath =
     (if IsNotExist fs imagePath then (Inl FileNotExist, fs)
      else (case ReadFile fs imagePath of
              None \<Rightarrow> (Inl ReadFailed, fs)
            | Some originalData \<Rightarrow>
                let originalSHA1 = sha1hex originalData;
                    ext = ToLower (Ext imagePath)
                in (case transform ext originalData of
                      Inl err \<Rightarrow> (Inl err, fs)
                    | Inr modifiedData \<Rightarrow>
                        let newSHA1 = sha1hex modifiedData
                        in if newSHA1 = originalSHA1 then (Inl SHA1Unchanged, fs)
                           else (case WriteFile fs imagePath modifiedData of
                                   (False, fs1) \<Rightarrow> (Inl WriteFailed, fs1)
                                 | (True, fs1) \<Rightarrow> (Inr newSHA1, fs1)))))"

text \<open>
  The switch of \<^verbatim>\<open>(*ImageModifier).ModifyImageSHA1\<close>: it calls \<^verbatim>\<open>insertJPEGComment\<close> and
  \<^verbatim>\<open>insertPNGTextChunk\<close> themselves, which return no error; the \<^verbatim>\<open>err\<close> tested after the
  switch is the \<^verbatim>\<open>nil\<close> left by the read.
\<close>

definition randomSwitch :: "bytes \<Rightarrow> bytes \<Rightarrow> bytes \<Rightarrow> error + bytes" where
  "randomSwitch entropy ext originalData =
     (if ext = str ''.jpg'' \<or> ext = str ''.jpeg''
      then Inr (insertJPEGComment originalData (generateRandomBytes entropy 16))
      else if ext = str ''.png''
      then Inr (insertPNGTextChunk originalData (str ''Random'') (generateRandomBytes entropy 32))
      else Inl (UnsupportedFormat ext))"

definition ImageModifier_ModifyImageSHA1 ::
  "(bytes \<Rightarrow> 'h) \<Rightarrow> bytes \<Rightarrow> filesystem \<Rightarrow> bytes \<Rightarrow> (error + 'h) \<times> filesystem" where
  "ImageModifier_ModifyImageSHA1 sha1hex entropy fs imagePath =
     modifyFile sha1hex (randomSwitch entropy) fs imagePath"

text \<open>The switch of \<^verbatim>\<open>(*ImageSHA1Modifier).ModifyImageSHA1\<close>.\<close>

definition sha1Switch ::
  "(bytes \<Rightarrow> Image option) \<Rightarrow> (Image \<Rightarrow> bytes option) \<Rightarrow> bytes \<Rightarrow> bytes \<Rightarrow> bytes \<Rightarrow> error + bytes" where
  "sha1Switch jpegDecode jpegEncodeImage entropy ext originalData =
     (if ext = str ''.jpg'' \<or> ext = str ''.jpeg''
      then (case modifyJPEGSHA1 jpegDecode jpegEncodeImage entropy originalData of
              Inl err \<Rightarrow> Inl (ModifySHA1Failed err) | Inr modifiedData \<Rightarrow> Inr modifiedData)
      else if ext = str ''.png''
      then (case modifyPNGSHA1 entropy originalData of
              Inl err \<Rightarrow> Inl (ModifySHA1Failed err) | Inr modifiedData \<Rightarrow> Inr modifiedData)
      else Inl (UnsupportedFormat ext))"

definition ImageSHA1Modifier_ModifyImageSHA1 ::
  "(bytes \<Rightarrow> 'h) \<Rightarrow> (bytes \<Rightarrow> Image option) \<Rightarrow> (Image \<Rightarrow> bytes option) \<Rightarrow> bytes
     \<Rightarrow> filesystem \<Rightarrow> bytes \<Rightarrow> (error + 'h) \<times> filesystem" where
  "ImageSHA1Modifier_ModifyImageSHA1 sha1hex jpegDecode jpegEncodeImage entropy fs imagePath =
     modifyFile sha1hex (sha1Switch jpegDecode jpegEncodeImage entropy) fs imagePath"

text \<open>The switch of \<^verbatim>\<open>ModifyImageSHA1ByPixel\<close>.\<close>

definition pixelSwitch ::
  "(bytes \<Rightarrow> Image option) \<Rightarrow> (RGBAImage \<Rightarrow> bytes option) \<Rightarrow>
   (bytes \<Rightarrow> Image option) \<Rightarrow> (RGBAImage \<Rightarrow> bytes option) \<Rightarrow> bytes \<Rightarrow> bytes \<Rightarrow> bytes
     \<Rightarrow> error + bytes" where
  "pixelSwitch jpegDecode jpegEncode pngDecode pngEncode entropy ext originalData =
     (if ext = str ''.jpg'' \<or> ext = str ''.jpeg''
      then (case modifyJPEGPixel jpegDecode jpegEncode entropy originalData of
              Inl err \<Rightarrow> Inl (PixelAdjustFailed err) | Inr modifiedData \<Rightarrow> Inr modifiedData)
      else if ext = str ''.png''
      then (case modifyPNGPixel pngDecode pngEncode entropy originalData of
              Inl err \<Rightarrow> Inl (PixelAdjustFailed err) | Inr modifiedData \<Rightarrow> Inr modifiedData)
      else Inl (UnsupportedFormat ext))"

definition ModifyImageSHA1ByPixel ::
  "(bytes \<Rightarrow> 'h) \<Rightarrow> (bytes \<Rightarrow> Image option) \<Rightarrow> (RGBAImage \<Rightarrow> bytes option) \<Rightarrow>
   (bytes \<Rightarrow> Image option) \<Rightarrow> (RGBAImage \<Rightarrow> bytes option) \<Rightarrow> bytes
     \<Rightarrow> filesystem \<Rightarrow> bytes \<Rightarrow> (error + 'h) \<times> filesystem" where
  "ModifyImageSHA1ByPixel sha1hex jpegDecode jpegEncode pngDecode pngEncode entropy fs imagePath =
     modifyFile sha1hex (pixelSwitch jpegDecode jpegEncode pngDecode pngEncode entropy)
       fs imagePath"

text \<open>The switch of \<^verbatim>\<open>ModifyImageMetadata\<close> (metadata.go).\<close>

definition metadataSwitch ::
  "('t ImageMetadata \<Rightarrow> bytes option) \<Rightarrow> ('t \<Rightarrow> bytes \<Rightarrow> bytes) \<Rightarrow> 't ImageMetadata
     \<Rightarrow> bytes \<Rightarrow> bytes \<Rightarrow> error + bytes" where
  "metadataSwitch Marshal Format metadata ext originalData =
     (if ext = str ''.jpg'' \<or> ext = str ''.jpeg''
      then (case modifyJPEGMetadata Marshal originalData metadata of
              Inl err \<Rightarrow> Inl (ModifyMetadataFailed err) | Inr modifiedData \<Rightarrow> Inr modifiedData)
      else if ext = str ''.png''
      then (case modifyPNGMetadata Format originalData metadata of
              Inl err \<Rightarrow> Inl (ModifyMetadataFailed err) | Inr modifiedData \<Rightarrow> Inr modifiedData)
      else Inl (UnsupportedFormat ext))"

definition ModifyImageMetadata ::
  "(bytes \<Rightarrow> 'h) \<Rightarrow> ('t ImageMetadata \<Rightarrow> bytes option) \<Rightarrow> ('t \<Rightarrow> bytes \<Rightarrow> bytes)
     \<Rightarrow> filesystem \<Rightarrow> bytes \<Rightarrow> 't ImageMetadata \<Rightarrow> (error + 'h) \<times> filesystem" where
  "ModifyImageMetadata sha1hex Marshal Format fs imagePath metadata =
     modifyFile sha1hex (metadataSwitch Marshal Format metadata) fs imagePath"

text \<open>
  \<^verbatim>\<open>getJPEGMetadata\<close>, \<^verbatim>\<open>getPNGMetadata\<close> and \<^verbatim>\<open>GetImageMetadata\<close>; they read the file and
  write nothing.
\<close>

definition getJPEGMetadata ::
  "(bytes \<Rightarrow> 't ImageMetadata option) \<Rightarrow> filesystem \<Rightarrow> bytes \<Rightarrow> error + 't ImageMetadata" where
  "getJPEGMetadata Unmarshal fs imagePath =
     (case ReadFile fs imagePath of
        None \<Rightarrow> Inl ReadFailed
      | Some data \<Rightarrow>
          (case extractJPEGComment data of
             None \<Rightarrow> Inr emptyMetadata
           | Some comment \<Rightarrow>
               (case Unmarshal comment of
                  None \<Rightarrow> Inr emptyMetadata
                | Some metadata \<Rightarrow> Inr metadata)))"

definition getPNGMetadata ::
  "(bytes \<Rightarrow> bytes \<Rightarrow> 't option) \<Rightarrow> filesystem \<Rightarrow> bytes \<Rightarrow> error + 't ImageMetadata" where
  "getPNGMetadata Parse fs imagePath =
     (case ReadFile fs imagePath of
        None \<Rightarrow> Inl ReadFailed
      | Some data \<Rightarrow>
          if length data < 8 \<or> take 8 data \<noteq> pngSignature then Inl NotValidPNG
          else Inr (getPNGMetadata_loop Parse data 8 emptyMetadata))"

definition GetImageMetadata ::
  "(bytes \<Rightarrow> 't ImageMetadata option) \<Rightarrow> (bytes \<Rightarrow> bytes \<Rightarrow> 't option) \<Rightarrow> filesystem \<Rightarrow> bytes
     \<Rightarrow> error + 't ImageMetadata" where
  "GetImageMetadata Unmarshal Parse fs imagePath =
     (if IsNotExist fs imagePath then Inl FileNotExist
      else
        let ext = ToLower (Ext imagePath)
        in if ext = str ''.jpg'' \<or> ext = str ''.jpeg'' then getJPEGMetadata Unmarshal fs imagePath
           else if ext = str ''.png'' then getPNGMetadata Parse fs imagePath
           else Inl (UnsupportedFormat ext))"

section \<open>The JPEG comment segment and its length field\<close>

lemma or_low_byte:
  fixes a b :: nat
  assumes "b < 256"
  shows "push_bit 8 a OR b = a * 256 + b"
proof -
  from assms have "b < 2 ^ 8" by simp
  then have lo: "take_bit 8 b = b"
    by (simp only: take_bit_nat_eq_self)
  have "push_bit 8 a AND take_bit 8 b = 0"
    by (simp add: bit_eq_iff bit_simps)
  then have "push_bit 8 a + take_bit 8 b = push_bit 8 a OR take_bit 8 b"
    by (rule disjunctive_add_eq_or)
  then show ?thesis
    by (simp add: lo push_bit_eq_mult)
qed

lemma unat_byte_less: "unat (b :: byte) < 256"
proof -
  have "unat b < 2 ^ LENGTH(8)" by (rule unsigned_less)
  then show ?thesis by simp
qed

lemma segmentLen_eq:
  "segmentLen data pos = unat (data ! pos) * 256 + unat (data ! (pos + 1))"
  by (simp add: segmentLen_def or_low_byte unat_byte_less)

lemma hi_byte: "unat (word_of_nat (drop_bit 8 n) :: byte) = (n div 256) mod 256"
  by (simp add: unat_of_nat drop_bit_eq_div)

lemma lo_byte: "unat (word_of_nat (n AND 0xFF) :: byte) = n mod 256"
proof -
  have "n AND 0xFF = take_bit 8 n"
    by (simp add: take_bit_eq_mask mask_eq_exp_minus_1)
  then show ?thesis by (simp add: unat_of_nat take_bit_eq_mod)
qed

lemma two_bytes_mod: "(n div 256) mod 256 * 256 + n mod 256 = n mod 65536" for n :: nat
  using mod_mult2_eq [of n 256 256] by simp

lemma length_field_value:
  "segmentLen [word_of_nat (drop_bit 8 n), word_of_nat (n AND 0xFF)] 0 = n mod 65536"
  using two_bytes_mod [of n] by (simp add: segmentLen_eq hi_byte lo_byte)

lemma insertJPEGComment_layout:
  assumes "4 \<le> length data"
  shows "insertJPEGComment data comment =
         take 2 data @ [0xFF, 0xFE, word_of_nat (drop_bit 8 (length comment + 2)),
                        word_of_nat ((length comment + 2) AND 0xFF)] @ comment @ drop 2 data"
  using assms by (simp add: insertJPEGComment_def commentSegment_def Let_def)

text \<open>
  Claim C9, as amended.  For a buffer of at least 4 bytes the inserted segment is \<open>FF FE\<close>,
  two length bytes and the payload, placed after the first two bytes of the buffer.  Read as
  a big-endian number the length bytes are the payload length plus 2 modulo \<open>65536\<close>: they
  equal the payload length plus 2 for a payload of at most 65533 bytes, and nothing in
  \<^verbatim>\<open>insertJPEGComment\<close> rejects a longer payload.
\<close>

theorem insertJPEGComment_declared_length:
  assumes "4 \<le> length data"
  shows "\<exists>hi lo. insertJPEGComment data comment
                   = take 2 data @ [0xFF, 0xFE, hi, lo] @ comment @ drop 2 data
               \<and> segmentLen [hi, lo] 0 = (length comment + 2) mod 65536
               \<and> (length comment \<le> 65533 \<longrightarrow> segmentLen [hi, lo] 0 = length comment + 2)"
proof (intro exI conjI impI)
  show "insertJPEGComment data comment =
         take 2 data @ [0xFF, 0xFE, word_of_nat (drop_bit 8 (length comment + 2)),
                        word_of_nat ((length comment + 2) AND 0xFF)] @ comment @ drop 2 data"
    using assms by (rule insertJPEGComment_layout)
  show "segmentLen [word_of_nat (drop_bit 8 (length comment + 2)),
                    word_of_nat ((length comment + 2) AND 0xFF)] 0 = (length comment + 2) mod 65536"
    by (rule length_field_value)
  assume "length comment \<le> 65533"
  then show "segmentLen [word_of_nat (drop_bit 8 (length comment + 2)),
                    word_of_nat ((length comment + 2) AND 0xFF)] 0 = length comment + 2"
    by (simp only: length_field_value) simp
qed

lemma insertJPEGComment_length_at_4:
  assumes "4 \<le> length data"
  shows "segmentLen (insertJPEGComment data comment) 4 = (length comment + 2) mod 65536"
proof -
  have l: "length (take 2 data) = 2" using assms by simp
  have "segmentLen (insertJPEGComment data comment) 4
        = segmentLen [word_of_nat (drop_bit 8 (length comment + 2)),
                    word_of_nat ((length comment + 2) AND 0xFF)] 0"
    unfolding insertJPEGComment_layout [OF assms] segmentLen_def
    using assms by (simp add: nth_append)
  then show ?thesis by (simp only: length_field_value)
qed

text \<open>
  Claim C9 as stated fails for a payload of 65534 bytes: the length bytes are \<open>00 00\<close>, not
  the payload length plus 2.
\<close>

theorem insertJPEGComment_long_payload_counterexample:
  "take 4 (drop 2 (insertJPEGComment [0xFF, 0xD8, 0xFF, 0xD9] (replicate 65534 0))) = [0xFF, 0xFE, 0, 0]
   \<and> segmentLen (insertJPEGComment [0xFF, 0xD8, 0xFF, 0xD9] (replicate 65534 0)) 4
       \<noteq> length (replicate 65534 (0::byte)) + 2"
proof
  show "take 4 (drop 2 (insertJPEGComment [0xFF, 0xD8, 0xFF, 0xD9] (replicate 65534 0))) = [0xFF, 0xFE, 0, 0]"
    by (simp add: insertJPEGComment_layout drop_bit_eq_div)
  show "segmentLen (insertJPEGComment [0xFF, 0xD8, 0xFF, 0xD9] (replicate 65534 0)) 4
       \<noteq> length (replicate 65534 (0::byte)) + 2"
    by (simp add: insertJPEGComment_length_at_4)
qed

theorem insertJPEGComment_declared_length_witness:
  "4 \<le> length [0xFF, 0xD8, 0xFF, 0xD9 :: byte]
   \<and> (\<exists>hi lo. insertJPEGComment [0xFF, 0xD8, 0xFF, 0xD9] [0x41, 0x42]
                   = take 2 [0xFF, 0xD8, 0xFF, 0xD9] @ [0xFF, 0xFE, hi, lo] @ [0x41, 0x42] @ drop 2 [0xFF, 0xD8, 0xFF, 0xD9]
               \<and> segmentLen [hi, lo] 0 = (length [0x41, 0x42 :: byte] + 2) mod 65536
               \<and> (length [0x41, 0x42 :: byte] \<le> 65533 \<longrightarrow> segmentLen [hi, lo] 0 = length [0x41, 0x42 :: byte] + 2))"
proof -
  have h: "4 \<le> length [0xFF, 0xD8, 0xFF, 0xD9 :: byte]" by simp
  show ?thesis
    using h insertJPEGComment_declared_length [OF h, of "[0x41, 0x42]"] by blast
qed


section \<open>The frame of the entry points\<close>

lemma ReadFile_exists: "ReadFile fs p = Some d \<Longrightarrow> \<not> IsNotExist fs p"
  by (auto simp: ReadFile_def IsNotExist_def split: option.splits)

lemma modifyFile_success:
  assumes "modifyFile sha1hex transform fs p = (Inr h, fs1)"
  shows "\<exists>orig out. ReadFile fs p = Some orig \<and> transform (ToLower (Ext p)) orig = Inr out
            \<and> h = sha1hex out \<and> sha1hex out \<noteq> sha1hex orig \<and> WriteFile fs p out = (True, fs1)"
  using assms
  by (auto simp: modifyFile_def Let_def split: if_splits option.splits sum.splits prod.splits bool.splits)

lemma modifyFile_unchanged:
  assumes "ReadFile fs p = Some orig" and "transform (ToLower (Ext p)) orig = Inr out"
    and "sha1hex out = sha1hex orig"
  shows "modifyFile sha1hex transform fs p = (Inl SHA1Unchanged, fs)"
  using assms ReadFile_exists [OF assms(1)]
  by (simp add: modifyFile_def Let_def)

lemma modifyFile_transform_error:
  assumes "ReadFile fs p = Some orig" and "transform (ToLower (Ext p)) orig = Inl e"
  shows "modifyFile sha1hex transform fs p = (Inl e, fs)"
  using assms ReadFile_exists [OF assms(1)]
  by (simp add: modifyFile_def Let_def)

lemma modifyFile_changed:
  assumes "ReadFile fs p = Some orig" and "transform (ToLower (Ext p)) orig = Inr out"
    and "sha1hex out \<noteq> sha1hex orig"
  shows "modifyFile sha1hex transform fs p =
           (case WriteFile fs p out of (False, fs1) \<Rightarrow> (Inl WriteFailed, fs1)
                                     | (True, fs1) \<Rightarrow> (Inr (sha1hex out), fs1))"
  using assms ReadFile_exists [OF assms(1)]
  by (simp add: modifyFile_def Let_def)

lemma insertJPEGComment_short: "length data < 4 \<Longrightarrow> insertJPEGComment data comment = data"
  by (simp add: insertJPEGComment_def)

lemma removeJPEGComments_short: "length data < 4 \<Longrightarrow> removeJPEGComments data = data"
  by (simp add: removeJPEGComments_def)

text \<open>
  Claim C10.  A buffer shorter than 4 bytes comes back from \<^verbatim>\<open>insertJPEGComment\<close> as it is.
  On a JPEG file with such content the switch of \<^verbatim>\<open>(*ImageModifier).ModifyImageSHA1\<close> and,
  once the metadata has been serialised, \<^verbatim>\<open>modifyJPEGMetadata\<close> therefore produce the input
  bytes, and the entry points fail with the no-change error of the digest comparison, not
  with a container error; the file system is as before and nothing was handed to
  \<^verbatim>\<open>os.WriteFile\<close>.
\<close>

theorem short_JPEG_buffer_no_change:
  assumes "length data < 4"
  shows "insertJPEGComment data comment = data
     \<and> (ReadFile fs imagePath = Some data
          \<and> (ToLower (Ext imagePath) = str ''.jpg'' \<or> ToLower (Ext imagePath) = str ''.jpeg'')
        \<longrightarrow> randomSwitch entropy (ToLower (Ext imagePath)) data = Inr data
          \<and> ImageModifier_ModifyImageSHA1 sha1hex entropy fs imagePath = (Inl SHA1Unchanged, fs))
     \<and> (ReadFile fs imagePath = Some data
          \<and> (ToLower (Ext imagePath) = str ''.jpg'' \<or> ToLower (Ext imagePath) = str ''.jpeg'')
          \<and> Marshal metadata = Some metadataJSON
        \<longrightarrow> modifyJPEGMetadata Marshal data metadata = Inr data
          \<and> ModifyImageMetadata sha1hex Marshal Format fs imagePath metadata
              = (Inl SHA1Unchanged, fs))"
proof (intro conjI impI)
  show "insertJPEGComment data comment = data"
    using assms by (rule insertJPEGComment_short)
next
  assume h: "ReadFile fs imagePath = Some data
          \<and> (ToLower (Ext imagePath) = str ''.jpg'' \<or> ToLower (Ext imagePath) = str ''.jpeg'')"
  then show sw: "randomSwitch entropy (ToLower (Ext imagePath)) data = Inr data"
    using assms by (auto simp: randomSwitch_def insertJPEGComment_short)
  show "ImageModifier_ModifyImageSHA1 sha1hex entropy fs imagePath = (Inl SHA1Unchanged, fs)"
    unfolding ImageModifier_ModifyImageSHA1_def
    using h sw by (intro modifyFile_unchanged [where orig = data and out = data]) simp_all
next
  assume h: "ReadFile fs imagePath = Some data
          \<and> (ToLower (Ext imagePath) = str ''.jpg'' \<or> ToLower (Ext imagePath) = str ''.jpeg'')
          \<and> Marshal metadata = Some metadataJSON"
  then show m: "modifyJPEGMetadata Marshal data metadata = Inr data"
    using assms by (simp add: modifyJPEGMetadata_def removeJPEGComments_short insertJPEGComment_short)
  have sw: "metadataSwitch Marshal Format metadata (ToLower (Ext imagePath)) data = Inr data"
    using h m by (auto simp: metadataSwitch_def)
  show "ModifyImageMetadata sha1hex Marshal Format fs imagePath metadata = (Inl SHA1Unchanged, fs)"
    unfolding ModifyImageMetadata_def
    using h sw by (intro modifyFile_unchanged [where orig = data and out = data]) simp_all
qed

lemma Ext_a_jpg: "ToLower (Ext (str ''a.jpg'')) = str ''.jpg''"
  by (simp add: Ext_def ToLower_def str_def)

lemma Ext_a_png: "ToLower (Ext (str ''a.png'')) = str ''.png''"
  by (simp add: Ext_def ToLower_def str_def)

theorem short_JPEG_buffer_no_change_witness:
  "length [0xFF, 0xD8 :: byte] < 4
   \<and> insertJPEGComment [0xFF, 0xD8] [1, 2, 3] = [0xFF, 0xD8]
   \<and> ImageModifier_ModifyImageSHA1 (\<lambda>d. d) []
        \<lparr>files = [str ''a.jpg'' \<mapsto> \<lparr>content = [0xFF, 0xD8], readable = True, writable = True\<rparr>],
         written = []\<rparr> (str ''a.jpg'')
      = (Inl SHA1Unchanged,
         \<lparr>files = [str ''a.jpg'' \<mapsto> \<lparr>content = [0xFF, 0xD8], readable = True, writable = True\<rparr>],
          written = []\<rparr>)
   \<and> ModifyImageMetadata (\<lambda>d. d) (\<lambda>m. Some (Artist m)) (\<lambda>t l. l)
        \<lparr>files = [str ''a.jpg'' \<mapsto> \<lparr>content = [0xFF, 0xD8], readable = True, writable = True\<rparr>],
         written = []\<rparr> (str ''a.jpg'') (emptyMetadata :: unit ImageMetadata)
      = (Inl SHA1Unchanged,
         \<lparr>files = [str ''a.jpg'' \<mapsto> \<lparr>content = [0xFF, 0xD8], readable = True, writable = True\<rparr>],
          written = []\<rparr>)"
proof -
  let ?fs = "\<lparr>files = [str ''a.jpg'' \<mapsto> \<lparr>content = [0xFF, 0xD8], readable = True, writable = True\<rparr>],
         written = []\<rparr>"
  have l: "length [0xFF, 0xD8 :: byte] < 4" by simp
  have r: "ReadFile ?fs (str ''a.jpg'') = Some [0xFF, 0xD8]"
    by (simp add: ReadFile_def)
  show ?thesis
    using l r Ext_a_jpg
      short_JPEG_buffer_no_change [OF l, of "[1, 2, 3]" ?fs "str ''a.jpg''" "[]" "\<lambda>d. d"
        "\<lambda>m. Some (Artist m)" "emptyMetadata :: unit ImageMetadata" "[]" "\<lambda>t l. l"]
    by (simp add: emptyMetadata_def)
qed

section \<open>The digest comparison\<close>

text \<open>
  Claim C1.  In each mode (the auxiliary chunk of either package, the pixel perturbation, the
  metadata rewrite) the entry point succeeds only with an output of its switch whose digest
  differs from the digest of the file read, and that output is what it hands to
  \<^verbatim>\<open>os.WriteFile\<close>; when the switch yields an output with the digest of the input, the entry
  point returns the no-change error and the file system, with its record of writes, is as
  before.
\<close>

theorem digest_guard:
  "(ImageModifier_ModifyImageSHA1 sha1hex entropy fs p = (Inr h, fs1) \<longrightarrow>
      (\<exists>orig out. ReadFile fs p = Some orig
          \<and> randomSwitch entropy (ToLower (Ext p)) orig = Inr out
          \<and> h = sha1hex out \<and> sha1hex out \<noteq> sha1hex orig \<and> WriteFile fs p out = (True, fs1)))
   \<and> (ReadFile fs p = Some orig \<and> randomSwitch entropy (ToLower (Ext p)) orig = Inr out
        \<and> sha1hex out = sha1hex orig \<longrightarrow>
      ImageModifier_ModifyImageSHA1 sha1hex entropy fs p = (Inl SHA1Unchanged, fs))
   \<and> (ImageSHA1Modifier_ModifyImageSHA1 sha1hex jpegDecode jpegEncodeImage entropy fs p
        = (Inr h, fs1) \<longrightarrow>
      (\<exists>orig out. ReadFile fs p = Some orig
          \<and> sha1Switch jpegDecode jpegEncodeImage entropy (ToLower (Ext p)) orig = Inr out
          \<and> h = sha1hex out \<and> sha1hex out \<noteq> sha1hex orig \<and> WriteFile fs p out = (True, fs1)))
   \<and> (ReadFile fs p = Some orig
        \<and> sha1Switch jpegDecode jpegEncodeImage entropy (ToLower (Ext p)) orig = Inr out
        \<and> sha1hex out = sha1hex orig \<longrightarrow>
      ImageSHA1Modifier_ModifyImageSHA1 sha1hex jpegDecode jpegEncodeImage entropy fs p
        = (Inl SHA1Unchanged, fs))
   \<and> (ModifyImageSHA1ByPixel sha1hex jpegDecode jpegEncode pngDecode pngEncode entropy fs p
        = (Inr h, fs1) \<longrightarrow>
      (\<exists>orig out. ReadFile fs p = Some orig
          \<and> pixelSwitch jpegDecode jpegEncode pngDecode pngEncode entropy (ToLower (Ext p)) orig
              = Inr out
          \<and> h = sha1hex out \<and> sha1hex out \<noteq> sha1hex orig \<and> WriteFile fs p out = (True, fs1)))
   \<and> (ReadFile fs p = Some orig
        \<and> pixelSwitch jpegDecode jpegEncode pngDecode pngEncode entropy (ToLower (Ext p)) orig
            = Inr out
        \<and> sha1hex out = sha1hex orig \<longrightarrow>
      ModifyImageSHA1ByPixel sha1hex jpegDecode jpegEncode pngDecode pngEncode entropy fs p
        = (Inl SHA1Unchanged, fs))
   \<and> (ModifyImageMetadata sha1hex Marshal Format fs p metadata = (Inr h, fs1) \<longrightarrow>
      (\<exists>orig out. ReadFile fs p = Some orig
          \<and> metadataSwitch Marshal Format metadata (ToLower (Ext p)) orig = Inr out
          \<and> h = sha1hex out \<and> sha1hex out \<noteq> sha1hex orig \<and> WriteFile fs p out = (True, fs1)))
   \<and> (ReadFile fs p = Some orig
        \<and> metadataSwitch Marshal Format metadata (ToLower (Ext p)) orig = Inr out
        \<and> sha1hex out = sha1hex orig \<longrightarrow>
      ModifyImageMetadata sha1hex Marshal Format fs p metadata = (Inl SHA1Unchanged, fs))"
  unfolding ImageModifier_ModifyImageSHA1_def ImageSHA1Modifier_ModifyImageSHA1_def
    ModifyImageSHA1ByPixel_def ModifyImageMetadata_def
  by (intro conjI impI modifyFile_success; (elim conjE)?; (rule modifyFile_unchanged)?; assumption)

lemma ReadFile_oneFile: "ReadFile (oneFile p d) p = Some d"
  by (simp add: ReadFile_def oneFile_def)

lemma WriteFile_oneFile:
  "WriteFile (oneFile p d) p out =
     (True, \<lparr>files = [p \<mapsto> \<lparr>content = out, readable = True, writable = True\<rparr>],
            written = [(p, out)]\<rparr>)"
  by (simp add: WriteFile_def oneFile_def)

theorem digest_guard_witness:
  "ImageModifier_ModifyImageSHA1 (\<lambda>d. d) [] (oneFile (str ''a.jpg'') [0xFF, 0xD8, 0xFF, 0xD9])
       (str ''a.jpg'')
     = (Inr ([0xFF, 0xD8, 0xFF, 0xFE, 0x00, 0x12] @ replicate 16 0 @ [0xFF, 0xD9]),
        \<lparr>files = [str ''a.jpg'' \<mapsto>
                   \<lparr>content = [0xFF, 0xD8, 0xFF, 0xFE, 0x00, 0x12] @ replicate 16 0 @ [0xFF, 0xD9],
                    readable = True, writable = True\<rparr>],
         written = [(str ''a.jpg'', [0xFF, 0xD8, 0xFF, 0xFE, 0x00, 0x12] @ replicate 16 0 @ [0xFF, 0xD9])]\<rparr>)
   \<and> [0xFF, 0xD8, 0xFF, 0xFE, 0x00, 0x12] @ replicate 16 0 @ [0xFF, 0xD9] \<noteq> [0xFF, 0xD8, 0xFF, 0xD9 :: byte]
   \<and> ReadFile (oneFile (str ''a.jpg'') [0xFF, 0xD8]) (str ''a.jpg'') = Some [0xFF, 0xD8]
   \<and> randomSwitch [] (ToLower (Ext (str ''a.jpg''))) [0xFF, 0xD8] = Inr [0xFF, 0xD8]
   \<and> ImageModifier_ModifyImageSHA1 (\<lambda>d. d) [] (oneFile (str ''a.jpg'') [0xFF, 0xD8]) (str ''a.jpg'')
     = (Inl SHA1Unchanged, oneFile (str ''a.jpg'') [0xFF, 0xD8])
   \<and> ModifyImageSHA1ByPixel (\<lambda>d. d)
        (\<lambda>d. None) (\<lambda>img. None)
        (\<lambda>d. Some \<lparr>Bounds = \<lparr>MinX = 0, MinY = 0, MaxX = 1, MaxY = 1\<rparr>,
                    At = (\<lambda>x y. RGBA 10 20 30 255)\<rparr>)
        (\<lambda>img. Some (Pix img)) [0, 3] (oneFile (str ''a.png'') [1]) (str ''a.png'')
     = (Inr [11, 21, 31, 255],
        \<lparr>files = [str ''a.png'' \<mapsto> \<lparr>content = [11, 21, 31, 255], readable = True, writable = True\<rparr>],
         written = [(str ''a.png'', [11, 21, 31, 255])]\<rparr>)
   \<and> ModifyImageMetadata (\<lambda>d. d) (\<lambda>m. Some (Artist m)) (\<lambda>t l. l)
        (oneFile (str ''a.jpg'') [0xFF, 0xD8, 0xFF, 0xDB, 0, 0, 0, 0, 0xFF, 0xD9]) (str ''a.jpg'')
        ((emptyMetadata :: unit ImageMetadata)\<lparr>Artist := [0x41]\<rparr>)
     = (Inr [0xFF, 0xD8, 0xFF, 0xFE, 0x00, 0x03, 0x41, 0xFF, 0xDB, 0, 0, 0, 0, 0xFF, 0xD9],
        \<lparr>files = [str ''a.jpg'' \<mapsto>
                   \<lparr>content = [0xFF, 0xD8, 0xFF, 0xFE, 0x00, 0x03, 0x41, 0xFF, 0xDB, 0, 0, 0, 0, 0xFF, 0xD9],
                    readable = True, writable = True\<rparr>],
         written = [(str ''a.jpg'', [0xFF, 0xD8, 0xFF, 0xFE, 0x00, 0x03, 0x41, 0xFF, 0xDB, 0, 0, 0, 0, 0xFF, 0xD9])]\<rparr>)"
proof -
  let ?jpg = "str ''a.jpg''" and ?png = "str ''a.png''"
  let ?orig = "[0xFF, 0xD8, 0xFF, 0xD9 :: byte]"
  let ?out = "[0xFF, 0xD8, 0xFF, 0xFE, 0x00, 0x12] @ replicate 16 0 @ [0xFF, 0xD9 :: byte]"
  let ?dec = "\<lambda>d :: bytes. Some \<lparr>Bounds = \<lparr>MinX = 0, MinY = 0, MaxX = 1, MaxY = 1\<rparr>,
                    At = (\<lambda>x y. RGBA 10 20 30 255)\<rparr>"
  let ?enc = "\<lambda>img :: RGBAImage. Some (Pix img)"
  let ?M = "(emptyMetadata :: unit ImageMetadata)\<lparr>Artist := [0x41]\<rparr>"
  let ?morig = "[0xFF, 0xD8, 0xFF, 0xDB, 0, 0, 0, 0, 0xFF, 0xD9 :: byte]"
  let ?mout = "[0xFF, 0xD8, 0xFF, 0xFE, 0x00, 0x03, 0x41, 0xFF, 0xDB, 0, 0, 0, 0, 0xFF, 0xD9 :: byte]"
  have a: "randomSwitch [] (ToLower (Ext ?jpg)) ?orig = Inr ?out"
    by code_simp
  have a': "?out \<noteq> ?orig"
    by simp
  have b: "randomSwitch [] (ToLower (Ext ?jpg)) [0xFF, 0xD8] = Inr [0xFF, 0xD8]"
    by code_simp
  have c: "pixelSwitch (\<lambda>d. None) (\<lambda>img. None) ?dec ?enc [0, 3] (ToLower (Ext ?png)) [1]
             = Inr [11, 21, 31, 255]"
    by code_simp
  have d: "metadataSwitch (\<lambda>m. Some (Artist m)) (\<lambda>t l. l) ?M (ToLower (Ext ?jpg)) ?morig = Inr ?mout"
    by code_simp
  have A: "ImageModifier_ModifyImageSHA1 (\<lambda>d. d) [] (oneFile ?jpg ?orig) ?jpg
            = (Inr ?out, \<lparr>files = [?jpg \<mapsto> \<lparr>content = ?out, readable = True, writable = True\<rparr>],
                          written = [(?jpg, ?out)]\<rparr>)"
    unfolding ImageModifier_ModifyImageSHA1_def
    by (subst modifyFile_changed [where transform = "randomSwitch []" and sha1hex = "\<lambda>d. d", OF ReadFile_oneFile a]) (simp_all add: WriteFile_oneFile)
  have C: "ModifyImageSHA1ByPixel (\<lambda>d. d) (\<lambda>d. None) (\<lambda>img. None) ?dec ?enc [0, 3]
             (oneFile ?png [1]) ?png
            = (Inr [11, 21, 31, 255],
               \<lparr>files = [?png \<mapsto> \<lparr>content = [11, 21, 31, 255], readable = True, writable = True\<rparr>],
                written = [(?png, [11, 21, 31, 255])]\<rparr>)"
    unfolding ModifyImageSHA1ByPixel_def
    by (subst modifyFile_changed [where transform = "pixelSwitch (\<lambda>d. None) (\<lambda>img. None) ?dec ?enc [0, 3]" and sha1hex = "\<lambda>d. d", OF ReadFile_oneFile c]) (simp_all add: WriteFile_oneFile)
  have D: "ModifyImageMetadata (\<lambda>d. d) (\<lambda>m. Some (Artist m)) (\<lambda>t l. l) (oneFile ?jpg ?morig) ?jpg ?M
            = (Inr ?mout, \<lparr>files = [?jpg \<mapsto> \<lparr>content = ?mout, readable = True, writable = True\<rparr>],
                           written = [(?jpg, ?mout)]\<rparr>)"
    unfolding ModifyImageMetadata_def
    by (subst modifyFile_changed [where transform = "metadataSwitch (\<lambda>m. Some (Artist m)) (\<lambda>t l. l) ?M" and sha1hex = "\<lambda>d. d", OF ReadFile_oneFile d]) (simp_all add: WriteFile_oneFile)
  have B: "ImageModifier_ModifyImageSHA1 (\<lambda>d. d) [] (oneFile ?jpg [0xFF, 0xD8]) ?jpg
            = (Inl SHA1Unchanged, oneFile ?jpg [0xFF, 0xD8])"
    by (rule digest_guard [where orig = "[0xFF, 0xD8]" and out = "[0xFF, 0xD8]",
          THEN conjunct2, THEN conjunct1, THEN mp])
       (simp add: ReadFile_oneFile b)
  show ?thesis
    using A a' B b C D ReadFile_oneFile [of ?jpg "[0xFF, 0xD8]"] by simp
qed

section \<open>Buffers without the PNG signature\<close>

lemma png_ext_not_jpg: "str ''.png'' \<noteq> str ''.jpg''" "str ''.png'' \<noteq> str ''.jpeg''"
  by (simp_all add: str_def)

lemma insertPNGTextChunk_eq:
  "insertPNGTextChunk data keyword text =
     (case findPNGIENDChunk data of
        None \<Rightarrow> data @ createPNGTextChunk keyword text
      | Some p \<Rightarrow> take p data @ createPNGTextChunk keyword text @ drop p data)"
  by (simp add: insertPNGTextChunk_def createPNGTextChunk_def Let_def split: option.split)

lemma createPNGTextChunk_not_Nil: "createPNGTextChunk keyword text \<noteq> []"
  by (simp add: createPNGTextChunk_def PutUint32_def Let_def)

lemma findPNGIENDChunk_short: "length data \<le> 16 \<Longrightarrow> findPNGIENDChunk data = None"
  by (simp add: findPNGIENDChunk_def)

text \<open>
  Claim C7, as amended.  On a buffer without the 8-byte PNG signature \<^verbatim>\<open>modifyPNGSHA1\<close>,
  \<^verbatim>\<open>modifyPNGMetadata\<close> and \<^verbatim>\<open>getPNGMetadata\<close> return the not-a-valid-PNG error, and on a
  \<open>.png\<close> file with such content \<^verbatim>\<open>(*ImageSHA1Modifier).ModifyImageSHA1\<close>,
  \<^verbatim>\<open>ModifyImageMetadata\<close> and \<^verbatim>\<open>GetImageMetadata\<close> return it (the modifying ones wrapped in their
  own message) and leave the file system as it was, with nothing handed to \<^verbatim>\<open>os.WriteFile\<close>.
  The pixel mode checks no signature: it fails, with the decoder's failure, when the PNG
  decoder rejects the buffer, and then also leaves the file system as it was.
\<close>

theorem missing_PNG_signature:
  assumes "length data < 8 \<or> take 8 data \<noteq> pngSignature"
  shows "modifyPNGSHA1 entropy data = Inl NotValidPNG
     \<and> modifyPNGMetadata Format data metadata = Inl NotValidPNG
     \<and> (ReadFile fs p = Some data \<and> ToLower (Ext p) = str ''.png'' \<longrightarrow>
          ImageSHA1Modifier_ModifyImageSHA1 sha1hex jpegDecode jpegEncodeImage entropy fs p
            = (Inl (ModifySHA1Failed NotValidPNG), fs)
        \<and> ModifyImageMetadata sha1hex Marshal Format fs p metadata
            = (Inl (ModifyMetadataFailed NotValidPNG), fs)
        \<and> getPNGMetadata Parse fs p = Inl NotValidPNG
        \<and> GetImageMetadata Unmarshal Parse fs p = Inl NotValidPNG
        \<and> (pngDecode data = None \<longrightarrow>
             ModifyImageSHA1ByPixel sha1hex jpegDecode jpegEncode pngDecode pngEncode entropy fs p
               = (Inl (PixelAdjustFailed DecodePNGFailed), fs)))"
proof (intro conjI impI)
  show s: "modifyPNGSHA1 entropy data = Inl NotValidPNG"
    using assms by (auto simp: modifyPNGSHA1_def)
  show m: "modifyPNGMetadata Format data metadata = Inl NotValidPNG"
    using assms by (auto simp: modifyPNGMetadata_def)
  {
    assume h: "ReadFile fs p = Some data \<and> ToLower (Ext p) = str ''.png''"
    then have r: "ReadFile fs p = Some data" and e: "ToLower (Ext p) = str ''.png''"
      by simp_all
    have "sha1Switch jpegDecode jpegEncodeImage entropy (ToLower (Ext p)) data
            = Inl (ModifySHA1Failed NotValidPNG)"
      by (simp add: sha1Switch_def e png_ext_not_jpg s)
    then show "ImageSHA1Modifier_ModifyImageSHA1 sha1hex jpegDecode jpegEncodeImage entropy fs p
            = (Inl (ModifySHA1Failed NotValidPNG), fs)"
      unfolding ImageSHA1Modifier_ModifyImageSHA1_def
      by (rule modifyFile_transform_error [OF r])
    have "metadataSwitch Marshal Format metadata (ToLower (Ext p)) data
            = Inl (ModifyMetadataFailed NotValidPNG)"
      by (simp add: metadataSwitch_def e png_ext_not_jpg m)
    then show "ModifyImageMetadata sha1hex Marshal Format fs p metadata
            = (Inl (ModifyMetadataFailed NotValidPNG), fs)"
      unfolding ModifyImageMetadata_def
      by (rule modifyFile_transform_error [OF r])
    show g: "getPNGMetadata Parse fs p = Inl NotValidPNG"
      using assms r by (auto simp: getPNGMetadata_def)
    show "GetImageMetadata Unmarshal Parse fs p = Inl NotValidPNG"
      using ReadFile_exists [OF r] by (simp add: GetImageMetadata_def e png_ext_not_jpg g)
    assume d: "pngDecode data = None"
    have "pixelSwitch jpegDecode jpegEncode pngDecode pngEncode entropy (ToLower (Ext p)) data
            = Inl (PixelAdjustFailed DecodePNGFailed)"
      by (simp add: pixelSwitch_def e png_ext_not_jpg modifyPNGPixel_def d)
    then show "ModifyImageSHA1ByPixel sha1hex jpegDecode jpegEncode pngDecode pngEncode entropy fs p
               = (Inl (PixelAdjustFailed DecodePNGFailed), fs)"
      unfolding ModifyImageSHA1ByPixel_def
      by (rule modifyFile_transform_error [OF r])
  }
qed

theorem missing_PNG_signature_witness:
  "(length [0 :: byte] < 8 \<or> take 8 [0] \<noteq> pngSignature)
   \<and> modifyPNGSHA1 [] [0] = Inl NotValidPNG
   \<and> modifyPNGMetadata (\<lambda>t l. l) [0] (emptyMetadata :: unit ImageMetadata) = Inl NotValidPNG
   \<and> ReadFile (oneFile (str ''a.png'') [0]) (str ''a.png'') = Some [0]
   \<and> ToLower (Ext (str ''a.png'')) = str ''.png''
   \<and> ImageSHA1Modifier_ModifyImageSHA1 (\<lambda>d. d) (\<lambda>d. None) (\<lambda>i. None) []
        (oneFile (str ''a.png'') [0]) (str ''a.png'')
       = (Inl (ModifySHA1Failed NotValidPNG), oneFile (str ''a.png'') [0])
   \<and> ModifyImageMetadata (\<lambda>d. d) (\<lambda>m. Some []) (\<lambda>t l. l) (oneFile (str ''a.png'') [0])
        (str ''a.png'') (emptyMetadata :: unit ImageMetadata)
       = (Inl (ModifyMetadataFailed NotValidPNG), oneFile (str ''a.png'') [0])
   \<and> GetImageMetadata (\<lambda>d. (None :: unit ImageMetadata option)) (\<lambda>l v. (None :: unit option))
        (oneFile (str ''a.png'') [0]) (str ''a.png'')
       = Inl NotValidPNG
   \<and> ModifyImageSHA1ByPixel (\<lambda>d. d) (\<lambda>d. None) (\<lambda>i. None) (\<lambda>d. None) (\<lambda>i. None) []
        (oneFile (str ''a.png'') [0]) (str ''a.png'')
       = (Inl (PixelAdjustFailed DecodePNGFailed), oneFile (str ''a.png'') [0])"
proof -
  have h: "length [0 :: byte] < 8 \<or> take 8 [0] \<noteq> pngSignature" by simp
  show ?thesis
    using h Ext_a_png ReadFile_oneFile [of "str ''a.png''" "[0]"]
      missing_PNG_signature [OF h, where entropy = "[]" and Format = "\<lambda>t l. l"
        and metadata = "emptyMetadata :: unit ImageMetadata"
        and fs = "oneFile (str ''a.png'') [0]" and p = "str ''a.png''" and ?sha1hex = "\<lambda>d. d"
        and jpegDecode = "\<lambda>d. None" and jpegEncodeImage = "\<lambda>i. None"
        and Marshal = "\<lambda>m. Some []" and Parse = "\<lambda>l v. (None :: unit option)"
        and Unmarshal = "\<lambda>d. (None :: unit ImageMetadata option)"
        and pngDecode = "\<lambda>d. None" and jpegEncode = "\<lambda>i. None" and pngEncode = "\<lambda>i. None"]
    by simp
qed

text \<open>
  Claim C7 as stated fails.  On a \<open>.png\<close> file holding the single byte \<open>00\<close>,
  \<^verbatim>\<open>(*ImageModifier).ModifyImageSHA1\<close> succeeds and writes the byte followed by a text chunk, and
  the pixel mode fails with the decoder's error, not with the not-a-valid-PNG error.
\<close>

theorem missing_PNG_signature_counterexample:
  "length [0 :: byte] < 8
   \<and> ImageModifier_ModifyImageSHA1 (\<lambda>d. d) [] (oneFile (str ''a.png'') [0]) (str ''a.png'')
       = (Inr ([0] @ createPNGTextChunk (str ''Random'') (replicate 32 0)),
          \<lparr>files = [str ''a.png'' \<mapsto>
                     \<lparr>content = [0] @ createPNGTextChunk (str ''Random'') (replicate 32 0),
                      readable = True, writable = True\<rparr>],
           written = [(str ''a.png'', [0] @ createPNGTextChunk (str ''Random'') (replicate 32 0))]\<rparr>)
   \<and> ModifyImageSHA1ByPixel (\<lambda>d. d) (\<lambda>d. None) (\<lambda>i. None) (\<lambda>d. None) (\<lambda>i. None) []
        (oneFile (str ''a.png'') [0]) (str ''a.png'')
       = (Inl (PixelAdjustFailed DecodePNGFailed), oneFile (str ''a.png'') [0])
   \<and> PixelAdjustFailed DecodePNGFailed \<noteq> NotValidPNG
   \<and> PixelAdjustFailed DecodePNGFailed \<noteq> PixelAdjustFailed NotValidPNG"
proof -
  let ?png = "str ''a.png''"
  let ?out = "[0] @ createPNGTextChunk (str ''Random'') (replicate 32 0)"
  have sw: "randomSwitch [] (ToLower (Ext ?png)) [0] = Inr ?out"
    by (simp add: randomSwitch_def Ext_a_png png_ext_not_jpg insertPNGTextChunk_eq
        findPNGIENDChunk_short generateRandomBytes_def)
  have ne: "(\<lambda>d. d) ?out \<noteq> (\<lambda>d. d) [0 :: byte]"
    by (simp add: createPNGTextChunk_not_Nil)
  have A: "ImageModifier_ModifyImageSHA1 (\<lambda>d. d) [] (oneFile ?png [0]) ?png
       = (Inr ?out, \<lparr>files = [?png \<mapsto> \<lparr>content = ?out, readable = True, writable = True\<rparr>],
                     written = [(?png, ?out)]\<rparr>)"
    unfolding ImageModifier_ModifyImageSHA1_def
    by (subst modifyFile_changed [where transform = "randomSwitch []" and sha1hex = "\<lambda>d. d",
          OF ReadFile_oneFile sw ne]) (simp add: WriteFile_oneFile)
  have psw: "pixelSwitch (\<lambda>d. None) (\<lambda>i. None) (\<lambda>d. None) (\<lambda>i. None) [] (ToLower (Ext ?png)) [0]
       = Inl (PixelAdjustFailed DecodePNGFailed)"
    by (simp add: pixelSwitch_def Ext_a_png png_ext_not_jpg modifyPNGPixel_def)
  have B: "ModifyImageSHA1ByPixel (\<lambda>d. d) (\<lambda>d. None) (\<lambda>i. None) (\<lambda>d. None) (\<lambda>i. None) []
        (oneFile ?png [0]) ?png
       = (Inl (PixelAdjustFailed DecodePNGFailed), oneFile ?png [0])"
    unfolding ModifyImageSHA1ByPixel_def
    by (rule modifyFile_transform_error
          [where transform = "pixelSwitch (\<lambda>d. None) (\<lambda>i. None) (\<lambda>d. None) (\<lambda>i. None) []",
           OF ReadFile_oneFile psw])
  show ?thesis
    using A B by simp
qed

section \<open>The border pixels\<close>

lemma length_concat_pairs: "length (concat (map (\<lambda>x. [f x, g x]) xs)) = 2 * length xs"
  by (induction xs) simp_all

lemma nth_concat_pairs:
  assumes "k < length xs"
  shows "concat (map (\<lambda>x. [f x, g x]) xs) ! (2 * k) = f (xs ! k)"
    and "concat (map (\<lambda>x. [f x, g x]) xs) ! (2 * k + 1) = g (xs ! k)"
  using assms
proof (induction xs arbitrary: k)
  case Nil
  { case 1 then show ?case by simp }
  { case 2 then show ?case by simp }
next
  case (Cons a xs)
  { case 1 then show ?case using Cons.IH(1) [of "k - 1"] by (cases k) simp_all }
  { case 2 then show ?case using Cons.IH(2) [of "k - 1"] by (cases k) simp_all }
qed

lemma length_getEdgePixels:
  "length (getEdgePixels w h) = 2 * nat w + 2 * nat (h - 2)"
  by (simp add: getEdgePixels_def length_concat_pairs)

lemma set_getEdgePixels:
  "set (getEdgePixels w h) =
     {PixelCoord x y | x y. 0 \<le> x \<and> x < w \<and> (y = 0 \<or> y = h - 1)}
     \<union> {PixelCoord x y | x y. 1 \<le> y \<and> y < h - 1 \<and> (x = 0 \<or> x = w - 1)}"
proof -
  have a: "set (concat (map (\<lambda>x. [PixelCoord x 0, PixelCoord x (h - 1)]) [0..w - 1]))
           = {PixelCoord x y | x y. 0 \<le> x \<and> x < w \<and> (y = 0 \<or> y = h - 1)}"
    by (fastforce simp: image_iff)
  have b: "set (concat (map (\<lambda>y. [PixelCoord 0 y, PixelCoord (w - 1) y]) [1..h - 2]))
           = {PixelCoord x y | x y. 1 \<le> y \<and> y < h - 1 \<and> (x = 0 \<or> x = w - 1)}"
    by (fastforce simp: image_iff)
  show ?thesis
    unfolding getEdgePixels_def set_append a b ..
qed

lemma distinct_concat_pairs:
  assumes "distinct xs" and "\<And>x. x \<in> set xs \<Longrightarrow> f x \<noteq> g x"
    and "\<And>x y. x \<in> set xs \<Longrightarrow> y \<in> set xs \<Longrightarrow> x \<noteq> y \<Longrightarrow> {f x, g x} \<inter> {f y, g y} = {}"
  shows "distinct (concat (map (\<lambda>x. [f x, g x]) xs))"
  using assms
proof (induction xs)
  case Nil
  then show ?case by simp
next
  case (Cons a xs)
  have "distinct (concat (map (\<lambda>x. [f x, g x]) xs))"
    using Cons by simp
  moreover have "f a \<noteq> g a" using Cons.prems(2) by simp
  moreover have "f a \<notin> set (concat (map (\<lambda>x. [f x, g x]) xs))"
    and "g a \<notin> set (concat (map (\<lambda>x. [f x, g x]) xs))"
    using Cons.prems(1) Cons.prems(3) [of a] by fastforce+
  ultimately show ?case by simp
qed

lemma distinct_getEdgePixels:
  assumes "2 \<le> w" and "2 \<le> h"
  shows "distinct (getEdgePixels w h)"
proof -
  let ?top = "concat (map (\<lambda>x. [PixelCoord x 0, PixelCoord x (h - 1)]) [0..w - 1])"
  let ?side = "concat (map (\<lambda>y. [PixelCoord 0 y, PixelCoord (w - 1) y]) [1..h - 2])"
  have "distinct ?top"
    using assms by (intro distinct_concat_pairs) auto
  moreover have "distinct ?side"
    using assms by (intro distinct_concat_pairs) auto
  moreover have "set ?top \<inter> set ?side = {}"
    by auto
  ultimately show ?thesis
    by (simp add: getEdgePixels_def)
qed

text \<open>
  Claim C4.  For a width and a height of at least 2 the list has no repetition, and for
  \<open>100 \<times> 100\<close> it has 396 entries (lemmas \<open>distinct_getEdgePixels\<close> and
  \<open>length_getEdgePixels\<close>).  For a raster one pixel high the bottom row is the top row and
  every pixel is listed twice; for a raster one pixel wide the same happens to the rows
  between the first and the last.
\<close>

theorem getEdgePixels_repeats:
  "getEdgePixels 1 1 = [PixelCoord 0 0, PixelCoord 0 0]
   \<and> \<not> distinct (getEdgePixels 1 1)
   \<and> getEdgePixels 1 3 = [PixelCoord 0 0, PixelCoord 0 2, PixelCoord 0 1, PixelCoord 0 1]
   \<and> \<not> distinct (getEdgePixels 1 3)"
  by (simp add: getEdgePixels_def)

lemma getEdgePixels_100: "length (getEdgePixels 100 100) = 396" "distinct (getEdgePixels 100 100)"
  by (simp_all add: length_getEdgePixels distinct_getEdgePixels)

section \<open>The removal of comment segments and text chunks\<close>

text \<open>
  Claim C3.  Both removal loops stop when fewer than 4 (JPEG) or 8 (PNG) bytes remain after
  the current position, and return what they have gathered; the remaining bytes are not
  copied.  The first buffer holds no comment segment and loses its last two bytes, the
  end-of-image marker; the second holds no text chunk and loses the byte that follows its
  IEND chunk; the third loses the end-of-image marker that follows its only comment.
\<close>

theorem removal_drops_tail:
  "removeJPEGComments [0xFF, 0xD8, 0xFF, 0xE0, 0x00, 0x02, 0xFF, 0xD9]
     = [0xFF, 0xD8, 0xFF, 0xE0, 0x00, 0x02]
   \<and> removeExistingTextChunks
        (pngSignature @ [0, 0, 0, 0] @ str ''IEND'' @ [0xAE, 0x42, 0x60, 0x82] @ [7])
     = Some (pngSignature @ [0, 0, 0, 0] @ str ''IEND'' @ [0xAE, 0x42, 0x60, 0x82])
   \<and> removeJPEGComments [0xFF, 0xD8, 0xFF, 0xFE, 0x00, 0x04, 0x41, 0x42, 0xFF, 0xD9]
     = [0xFF, 0xD8]"
proof (intro conjI)
  show "removeJPEGComments [0xFF, 0xD8, 0xFF, 0xE0, 0x00, 0x02, 0xFF, 0xD9]
     = [0xFF, 0xD8, 0xFF, 0xE0, 0x00, 0x02]"
    by (simp add: removeJPEGComments_def segmentLen_def slice_def)
  show "removeExistingTextChunks
        (pngSignature @ [0, 0, 0, 0] @ str ''IEND'' @ [0xAE, 0x42, 0x60, 0x82] @ [7])
     = Some (pngSignature @ [0, 0, 0, 0] @ str ''IEND'' @ [0xAE, 0x42, 0x60, 0x82])"
    by (simp add: removeExistingTextChunks_def pngSignature_def str_def slice_def Uint32_def)
  show "removeJPEGComments [0xFF, 0xD8, 0xFF, 0xFE, 0x00, 0x04, 0x41, 0x42, 0xFF, 0xD9]
     = [0xFF, 0xD8]"
    by (simp add: removeJPEGComments_def segmentLen_def slice_def)
qed

end
